theory Spec2Isabelle
  imports Main "HOL-Library.Sublist"
begin

section \<open>The query-key request router of \<open>src/GUI/src/main.tsx\<close>\<close>

subsection \<open>Values\<close>

text \<open>
  A query key is a JavaScript array (\<open>QueryKey = readonly unknown[]\<close>). Its entries are
  modelled as the primitive values: strings, \<open>undefined\<close>, \<open>null\<close>, booleans and numbers.
  The router never computes with a number: it compares it with strings (never equal), puts
  it into a request body, or appends it to a string. A number \<open>n\<close> is therefore given by the
  string \<open>String(n)\<close> that JavaScript prints for it (\<open>5\<close>, \<open>0.5\<close>, \<open>1e+21\<close>, \<open>NaN\<close>), which
  determines the number up to the sign of zero. The cast \<open>queryKey[0] as string\<close> of the
  source is erased at run time, so an entry that is not a string stays what it is.
\<close>

datatype token = TUndefined | TNull | TBool bool | TNum string | TStr string

text \<open>
  The body of a response (\<open>data\<close>) and the body of a request are JSON-like values. An
  object is a list of its properties; a property is read from its first entry.
\<close>

datatype json = Prim token | Arr "json list" | Obj "(string \<times> json) list"

datatype error = TypeError | AxiosError nat

text \<open>\<open>queryKey[i]\<close>: reading past the end of an array gives \<open>undefined\<close>.\<close>

definition key_at :: "token list \<Rightarrow> nat \<Rightarrow> token" where
  "key_at queryKey i = (if i < length queryKey then queryKey ! i else TUndefined)"

text \<open>\<open>queryKey.includes('s')\<close>: some entry is the string \<open>s\<close>.\<close>

definition key_includes :: "token list \<Rightarrow> string \<Rightarrow> bool" where
  "key_includes queryKey s = (TStr s \<in> set queryKey)"

text \<open>\<open>String.prototype.startsWith\<close> and \<open>String.prototype.includes\<close>.\<close>

definition startsWith :: "string \<Rightarrow> string \<Rightarrow> bool" where
  "startsWith s e = prefix e s"

fun str_includes :: "string \<Rightarrow> string \<Rightarrow> bool" where
  "str_includes [] sub = (sub = [])"
| "str_includes (c # cs) sub = (prefix sub (c # cs) \<or> str_includes cs sub)"

text \<open>
  What \<open>'sse/' + v\<close> appends for a primitive \<open>v\<close>: the string itself, the name of
  \<open>undefined\<close>, \<open>null\<close>, \<open>true\<close> or \<open>false\<close>, and for a number the string JavaScript
  prints for it.
\<close>

fun to_string :: "token \<Rightarrow> string" where
  "to_string TUndefined = ''undefined''"
| "to_string TNull = ''null''"
| "to_string (TBool b) = (if b then ''true'' else ''false'')"
| "to_string (TNum printed) = printed"
| "to_string (TStr s) = s"

text \<open>
  \<open>v.p\<close> for the property names the router reads (\<open>response\<close>, \<open>regexes\<close>): reading a
  property of \<open>undefined\<close> or \<open>null\<close> throws a TypeError, an object gives the property or
  \<open>undefined\<close>, and any other value has no such property.
\<close>

fun get_prop :: "json \<Rightarrow> string \<Rightarrow> error + json" where
  "get_prop (Prim TUndefined) p = Inl TypeError"
| "get_prop (Prim TNull) p = Inl TypeError"
| "get_prop (Obj kvs) p = Inr (case map_of kvs p of None \<Rightarrow> Prim TUndefined | Some v \<Rightarrow> v)"
| "get_prop v p = Inr (Prim TUndefined)"

text \<open>\<open>v?.p\<close>: \<open>undefined\<close> when \<open>v\<close> is \<open>undefined\<close> or \<open>null\<close>.\<close>

fun get_prop_opt :: "json \<Rightarrow> string \<Rightarrow> error + json" where
  "get_prop_opt (Prim TUndefined) p = Inr (Prim TUndefined)"
| "get_prop_opt (Prim TNull) p = Inr (Prim TUndefined)"
| "get_prop_opt v p = get_prop v p"

subsection \<open>Backend clients\<close>

datatype client = ApiInstance | Auth | ApiGeneric | ApiDev

datatype http_method = GET | POST

record request =
  client :: client
  verb :: http_method
  url :: token
  headers :: "(string \<times> string) list"
  body :: "json option"

text \<open>
  The network: a request in a state of the world is answered by a failure (its status) or
  by the body \<open>data\<close> of the response, and the world moves on.
\<close>

type_synonym 'w transport = "request \<Rightarrow> 'w \<Rightarrow> (nat + json) \<times> 'w"

text \<open>
  \<open>const { data } = await c.get(...)\<close> followed by \<open>return u(data)\<close>: a failure of the
  transport is thrown on unchanged, otherwise the body goes through the unwrap \<open>u\<close>.
\<close>

definition perform ::
  "'w transport \<Rightarrow> request \<Rightarrow> (json \<Rightarrow> error + json) \<Rightarrow> 'w \<Rightarrow> (error + json) \<times> 'w" where
  "perform http r u w =
     (case http r w of
        (Inl status, w') \<Rightarrow> (Inl (AxiosError status), w')
      | (Inr data, w') \<Rightarrow> (u data, w'))"

definition get_req :: "client \<Rightarrow> token \<Rightarrow> request" where
  "get_req c path = \<lparr>client = c, verb = GET, url = path, headers = [], body = None\<rparr>"

definition get_sse_req :: "client \<Rightarrow> token \<Rightarrow> request" where
  "get_sse_req c path =
     \<lparr>client = c, verb = GET, url = path,
      headers = [(''Accept'', ''text/event-stream'')], body = None\<rparr>"

definition post_req :: "client \<Rightarrow> token \<Rightarrow> json \<Rightarrow> request" where
  "post_req c path b = \<lparr>client = c, verb = POST, url = path, headers = [], body = Some b\<rparr>"

text \<open>A transport that answers by \<open>f\<close> and keeps the list of the requests it was sent.\<close>

definition recorder :: "(request \<Rightarrow> nat + json) \<Rightarrow> request list transport" where
  "recorder f r log = (f r, log @ [r])"

subsection \<open>Configuration\<close>

text \<open>
  \<open>import.meta.env.REACT_APP_LOCAL\<close> and the list exported by
  \<open>services/mocked-endpoints\<close>, which is not part of the sources at hand and is a
  parameter here.
\<close>

record config =
  REACT_APP_LOCAL :: "string option"
  mockedEndpoints :: "string list"

subsection \<open>The router\<close>

text \<open>
  \<open>mockedEndpoints.some(endpoint => (queryKey[0] as string).startsWith(endpoint))\<close>:
  with no endpoint the callback never runs; otherwise its first run calls \<open>startsWith\<close> on
  \<open>queryKey[0]\<close>, which throws a TypeError unless that is a string.
\<close>

definition isMocked :: "config \<Rightarrow> token list \<Rightarrow> error + bool" where
  "isMocked cfg queryKey =
     (if mockedEndpoints cfg = [] then Inr False
      else case key_at queryKey 0 of
             TStr s \<Rightarrow> Inr (list_ex (\<lambda>endpoint. startsWith s endpoint) (mockedEndpoints cfg))
           | _ \<Rightarrow> Inl TypeError)"

definition isLocal :: "config \<Rightarrow> token list \<Rightarrow> bool" where
  "isLocal cfg queryKey = (REACT_APP_LOCAL cfg = Some ''true'' \<and> key_includes queryKey ''prod'')"

text \<open>\<open>(queryKey[0] as string).includes('auth')\<close>.\<close>

definition first_includes_auth :: "token list \<Rightarrow> error + bool" where
  "first_includes_auth queryKey =
     (case key_at queryKey 0 of
        TStr s \<Rightarrow> Inr (str_includes s ''auth'')
      | _ \<Rightarrow> Inl TypeError)"

definition response_of :: "json \<Rightarrow> error + json" where
  "response_of data = get_prop data ''response''"

definition response_regexes_of :: "json \<Rightarrow> error + json" where
  "response_regexes_of data =
     (case get_prop data ''response'' of
        Inl e \<Rightarrow> Inl e
      | Inr r \<Rightarrow> get_prop r ''regexes'')"

definition callApiInstance ::
  "'w transport \<Rightarrow> token list \<Rightarrow> 'w \<Rightarrow> (error + json) \<times> 'w" where
  "callApiInstance http queryKey =
     (if key_includes queryKey ''slots/slotById'' then
        perform http
          (post_req ApiInstance (key_at queryKey 0) (Obj [(''slot'', Prim (key_at queryKey 1))]))
          Inr
      else if key_includes queryKey ''forms/formById'' then
        perform http
          (post_req ApiInstance (key_at queryKey 0) (Obj [(''form'', Prim (key_at queryKey 1))]))
          Inr
      else if key_includes queryKey ''story-by-name'' then
        perform http
          (post_req ApiInstance (key_at queryKey 0) (Obj [(''story'', Prim (key_at queryKey 1))]))
          response_of
      else if key_includes queryKey ''rule-by-name'' then
        perform http
          (post_req ApiInstance (key_at queryKey 0) (Obj [(''rule'', Prim (key_at queryKey 1))]))
          response_of
      else if key_includes queryKey ''intents-report'' then
        perform http
          (post_req ApiInstance (key_at queryKey 0) (Obj [(''id'', Prim (key_at queryKey 1))]))
          response_of
      else
        perform http (get_req ApiInstance (key_at queryKey 0))
          (\<lambda>data.
             if key_includes queryKey ''entities'' then response_of data
             else if key_includes queryKey ''regexes'' then response_regexes_of data
             else Inr data))"

definition defaultQueryFn ::
  "config \<Rightarrow> 'w transport \<Rightarrow> token list \<Rightarrow> 'w \<Rightarrow> (error + json) \<times> 'w" where
  "defaultQueryFn cfg http queryKey w =
     (case isMocked cfg queryKey of
        Inl e \<Rightarrow> (Inl e, w)
      | Inr mocked \<Rightarrow>
         if isLocal cfg queryKey \<or> mocked then
           perform http (get_req ApiGeneric (key_at queryKey 0))
             (\<lambda>data. get_prop_opt data ''response'') w
         else if key_includes queryKey ''settings'' then
           perform http (get_req ApiDev (key_at queryKey 0)) Inr w
         else if key_includes queryKey ''prod'' then
           (if key_includes queryKey ''cs-get-all-active-chats'' then
              perform http
                (get_sse_req ApiDev (TStr (''sse/'' @ to_string (key_at queryKey 0)))) Inr w
            else perform http (get_req ApiDev (key_at queryKey 0)) Inr w)
         else
           (case first_includes_auth queryKey of
              Inl e \<Rightarrow> (Inl e, w)
            | Inr True \<Rightarrow> perform http (get_req Auth (key_at queryKey 0)) Inr w
            | Inr False \<Rightarrow>
               if key_includes queryKey ''regex'' \<and> key_includes queryKey ''examples'' then
                 perform http
                   (post_req ApiInstance (key_at queryKey 0)
                      (Obj [(''regex'', Prim (key_at queryKey 1)),
                            (''examples'', Prim (TBool True))]))
                   response_of w
               else callApiInstance http queryKey w))"

subsection \<open>Auxiliary definitions for stating and testing the properties\<close>

text \<open>A backend that answers every request with the body \<open>data\<close>.\<close>

definition answer :: "json \<Rightarrow> request \<Rightarrow> nat + json" where
  "answer data r = Inr data"

text \<open>
  A routing decision is either an error thrown before any request, or one request together
  with the unwrap applied to its response. \<open>run_plan\<close> carries a decision out.
\<close>

definition run_plan ::
  "error + request \<times> (json \<Rightarrow> error + json) \<Rightarrow> 'w transport \<Rightarrow> 'w \<Rightarrow> (error + json) \<times> 'w" where
  "run_plan plan http w =
     (case plan of Inl e \<Rightarrow> (Inl e, w) | Inr (r, u) \<Rightarrow> perform http r u w)"

section \<open>Properties\<close>

subsection \<open>Shared facts\<close>

lemma perform_recorder:
  "perform (recorder f) r u log =
     ((case f r of Inl status \<Rightarrow> Inl (AxiosError status) | Inr data \<Rightarrow> u data), log @ [r])"
  by (simp add: perform_def recorder_def split: sum.splits)

lemma perform_no_TypeError: "fst (perform http r Inr w) \<noteq> Inl TypeError"
  by (simp add: perform_def split: prod.splits sum.splits)

lemma isMocked_prefix:
  assumes "endpoint \<in> set (mockedEndpoints cfg)" and "startsWith s endpoint"
  shows "isMocked cfg (TStr s # rest) = Inr True"
  using assms by (auto simp: isMocked_def key_at_def list_ex_iff)

text \<open>
  The test \<open>(queryKey[0] as string).includes('auth')\<close> evaluates to false exactly when the
  first entry is a string without \<open>auth\<close> in it.
\<close>

lemma first_includes_auth_False_iff:
  "first_includes_auth queryKey = Inr False \<longleftrightarrow>
     (\<exists>s. key_at queryKey 0 = TStr s \<and> \<not> str_includes s ''auth'')"
  by (auto simp: first_includes_auth_def split: token.splits)

text \<open>
  A key without a first entry is outside what the router handles: with no mocked endpoint
  and no token to match, \<open>queryKey[0]\<close> is \<open>undefined\<close> and calling \<open>includes\<close> on it
  throws; with mocked endpoints \<open>startsWith\<close> throws before that.
\<close>

lemma empty_key_throws: "defaultQueryFn cfg http [] w = (Inl TypeError, w)"
  by (simp add: defaultQueryFn_def isMocked_def isLocal_def key_includes_def key_at_def
      first_includes_auth_def)

text \<open>The same holds for a key that consists of a number, which has no such methods.\<close>

lemma number_key_throws: "defaultQueryFn cfg http [TNum printed] w = (Inl TypeError, w)"
  by (simp add: defaultQueryFn_def isMocked_def isLocal_def key_includes_def key_at_def
      first_includes_auth_def)

text \<open>
  A number as first token goes into the streaming path the way JavaScript prints it: the
  key \<open>[1e21, "prod", "cs-get-all-active-chats"]\<close> asks for \<open>sse/1e+21\<close>.
\<close>

lemma sse_path_of_a_number:
  "snd (defaultQueryFn \<lparr>REACT_APP_LOCAL = None, mockedEndpoints = []\<rparr>
          (recorder (answer (Prim TNull)))
          [TNum ''1e+21'', TStr ''prod'', TStr ''cs-get-all-active-chats''] []) =
     [\<lparr>client = ApiDev, verb = GET, url = TStr ''sse/1e+21'',
       headers = [(''Accept'', ''text/event-stream'')], body = None\<rparr>]"
  by (simp add: defaultQueryFn_def isMocked_def isLocal_def key_includes_def key_at_def
      perform_recorder get_sse_req_def)

text \<open>The conditions under which \<open>defaultQueryFn\<close> ends in \<open>return callApiInstance(queryKey)\<close>.\<close>

lemma reaches_callApiInstance:
  assumes "isMocked cfg queryKey = Inr False"
    and "\<not> key_includes queryKey ''settings''"
    and "\<not> key_includes queryKey ''prod''"
    and "first_includes_auth queryKey = Inr False"
    and "\<not> (key_includes queryKey ''regex'' \<and> key_includes queryKey ''examples'')"
  shows "defaultQueryFn cfg http queryKey w = callApiInstance http queryKey w"
  using assms by (auto simp add: defaultQueryFn_def isLocal_def)

text \<open>The conditions under which \<open>callApiInstance\<close> ends in its \<open>apiInstance.get\<close>.\<close>

lemma default_get:
  assumes "isMocked cfg queryKey = Inr False"
    and "\<not> key_includes queryKey ''settings''"
    and "\<not> key_includes queryKey ''prod''"
    and "first_includes_auth queryKey = Inr False"
    and "\<not> (key_includes queryKey ''regex'' \<and> key_includes queryKey ''examples'')"
    and "\<not> key_includes queryKey ''slots/slotById''"
    and "\<not> key_includes queryKey ''forms/formById''"
    and "\<not> key_includes queryKey ''story-by-name''"
    and "\<not> key_includes queryKey ''rule-by-name''"
    and "\<not> key_includes queryKey ''intents-report''"
  shows "defaultQueryFn cfg http queryKey w =
           perform http (get_req ApiInstance (key_at queryKey 0))
             (\<lambda>data.
                if key_includes queryKey ''entities'' then response_of data
                else if key_includes queryKey ''regexes'' then response_regexes_of data
                else Inr data) w"
  using assms(6-10) reaches_callApiInstance [OF assms(1-5)]
  by (simp add: callApiInstance_def)

lemma single_token_reaches_callApiInstance:
  assumes "isMocked cfg [TStr t] = Inr False"
    and "t \<noteq> ''settings''" and "t \<noteq> ''prod''" and "\<not> str_includes t ''auth''"
  shows "defaultQueryFn cfg http [TStr t] w = callApiInstance http [TStr t] w"
  using assms
  by (intro reaches_callApiInstance)
     (auto simp: key_includes_def first_includes_auth_def key_at_def)

subsection \<open>Every run is the execution of one routing decision\<close>

lemma plan_throw: "\<exists>plan. \<forall>http w. (Inl e, w) = run_plan plan http w"
  by (rule exI [of _ "Inl e"]) (simp add: run_plan_def)

lemma plan_perform: "\<exists>plan. \<forall>http w. perform http r u w = run_plan plan http w"
  by (rule exI [of _ "Inr (r, u)"]) (simp add: run_plan_def)

lemma plan_if:
  assumes "c \<Longrightarrow> \<exists>plan. \<forall>http w. A http w = run_plan plan http w"
    and "\<not> c \<Longrightarrow> \<exists>plan. \<forall>http w. B http w = run_plan plan http w"
  shows "\<exists>plan. \<forall>http w. (if c then A http w else B http w) = run_plan plan http w"
  using assms by (cases c) simp_all

lemma plan_if_fun:
  assumes "c \<Longrightarrow> \<exists>plan. \<forall>http w. A http w = run_plan plan http w"
    and "\<not> c \<Longrightarrow> \<exists>plan. \<forall>http w. B http w = run_plan plan http w"
  shows "\<exists>plan. \<forall>http w. (if c then A http else B http) w = run_plan plan http w"
  using assms by (cases c) simp_all

lemma callApiInstance_plan:
  "\<exists>plan. \<forall>http w. callApiInstance http queryKey w = run_plan plan http w"
  unfolding callApiInstance_def by (intro plan_if_fun plan_perform)

lemma defaultQueryFn_plan:
  "\<exists>plan. \<forall>http w. defaultQueryFn cfg http queryKey w = run_plan plan http w"
proof (cases "isMocked cfg queryKey")
  case (Inl e)
  then show ?thesis by (simp add: defaultQueryFn_def plan_throw)
next
  case mocked: (Inr m)
  consider (throws) e where "first_includes_auth queryKey = Inl e"
    | (yes) "first_includes_auth queryKey = Inr True"
    | (no) "first_includes_auth queryKey = Inr False"
    by (cases "first_includes_auth queryKey") auto
  then show ?thesis
  proof cases
    case throws
    show ?thesis
      unfolding defaultQueryFn_def mocked throws sum.case
      by (intro plan_if plan_perform plan_throw)
  next
    case yes
    show ?thesis
      unfolding defaultQueryFn_def mocked yes sum.case bool.case
      by (intro plan_if plan_perform)
  next
    case no
    show ?thesis
      unfolding defaultQueryFn_def mocked no sum.case bool.case
      by (intro plan_if plan_perform callApiInstance_plan)
  qed
qed

lemma snd_run_plan_recorder:
  "snd (run_plan plan (recorder f) log) =
     (case plan of Inl e \<Rightarrow> log | Inr (r, u) \<Rightarrow> log @ [r])"
  by (simp add: run_plan_def perform_recorder split: sum.splits prod.splits)

subsection \<open>Rule 1: mocked endpoints\<close>

text \<open>
  C1. For every query key whose first token starts with one of the configured
  mocked-endpoint prefixes, the router sends one GET for the first token to the generic
  client (\<open>apiGeneric\<close>) and returns \<open>data?.response\<close>, whatever the other tokens of the key
  are (\<open>settings\<close>, \<open>prod\<close>, \<open>auth\<close> included) and whatever the local-mode flag is. A failure
  of the transport is passed on.
\<close>

theorem mocked_prefix_routes_to_generic:
  assumes "endpoint \<in> set (mockedEndpoints cfg)" and "startsWith s endpoint"
  shows "defaultQueryFn cfg http (TStr s # rest) w =
           perform http (get_req ApiGeneric (TStr s)) (\<lambda>data. get_prop_opt data ''response'') w"
  using isMocked_prefix [OF assms] by (simp add: defaultQueryFn_def key_at_def)

text \<open>
  At the key \<open>["mock/login", "settings", "prod", "auth"]\<close> with the prefix \<open>mock/\<close>
  configured and the envelope \<open>{response: 7}\<close>: one GET to the generic client, result 7.
\<close>

theorem mocked_prefix_routes_to_generic_witness:
  "''mock/'' \<in> set (mockedEndpoints \<lparr>REACT_APP_LOCAL = None, mockedEndpoints = [''mock/'']\<rparr>) \<and>
   startsWith ''mock/login'' ''mock/'' \<and>
   defaultQueryFn \<lparr>REACT_APP_LOCAL = None, mockedEndpoints = [''mock/'']\<rparr>
       (recorder (answer (Obj [(''response'', Prim (TNum ''7''))])))
       [TStr ''mock/login'', TStr ''settings'', TStr ''prod'', TStr ''auth''] [] =
     (Inr (Prim (TNum ''7'')),
      [\<lparr>client = ApiGeneric, verb = GET, url = TStr ''mock/login'', headers = [],
        body = None\<rparr>])"
  using mocked_prefix_routes_to_generic
    [of "''mock/''" "\<lparr>REACT_APP_LOCAL = None, mockedEndpoints = [''mock/'']\<rparr>" "''mock/login''"
        "recorder (answer (Obj [(''response'', Prim (TNum ''7''))]))"
        "[TStr ''settings'', TStr ''prod'', TStr ''auth'']" "[]"]
  by (simp add: perform_recorder answer_def startsWith_def get_req_def)

subsection \<open>Rules 2 and 3: \<open>settings\<close> and \<open>prod\<close>\<close>

text \<open>
  C2. For every query key that contains both \<open>settings\<close> and \<open>prod\<close>, for which the
  mocked-prefix test is false and the local-mode branch is not taken, the router follows
  the \<open>settings\<close> rule: a plain GET for the first token through the staged client
  (\<open>apiDev\<close>), the raw body returned. The \<open>prod\<close> rule, which would send the streaming
  request when the key also holds \<open>cs-get-all-active-chats\<close>, is never reached.
\<close>

theorem settings_precedes_prod:
  assumes "key_includes queryKey ''settings''"
    and "key_includes queryKey ''prod''"
    and "isMocked cfg queryKey = Inr False"
    and "\<not> isLocal cfg queryKey"
  shows "defaultQueryFn cfg http queryKey w =
           perform http (get_req ApiDev (key_at queryKey 0)) Inr w"
  using assms by (simp add: defaultQueryFn_def)

text \<open>
  At the key \<open>["cs-get-all-active-chats", "settings", "prod"]\<close>: a plain GET without the
  event-stream header, and the body as it came.
\<close>

theorem settings_precedes_prod_witness:
  "defaultQueryFn \<lparr>REACT_APP_LOCAL = Some ''false'', mockedEndpoints = [''mock/'']\<rparr>
       (recorder (answer (Obj [(''response'', Prim (TNum ''7''))])))
       [TStr ''cs-get-all-active-chats'', TStr ''settings'', TStr ''prod''] [] =
     (Inr (Obj [(''response'', Prim (TNum ''7''))]),
      [\<lparr>client = ApiDev, verb = GET, url = TStr ''cs-get-all-active-chats'', headers = [],
        body = None\<rparr>])"
proof -
  let ?cfg = "\<lparr>REACT_APP_LOCAL = Some ''false'', mockedEndpoints = [''mock/'']\<rparr>"
  let ?key = "[TStr ''cs-get-all-active-chats'', TStr ''settings'', TStr ''prod'']"
  let ?http = "recorder (answer (Obj [(''response'', Prim (TNum ''7''))]))"
  have "defaultQueryFn ?cfg ?http ?key [] = perform ?http (get_req ApiDev (key_at ?key 0)) Inr []"
    by (rule settings_precedes_prod)
       (simp_all add: key_includes_def isMocked_def isLocal_def key_at_def startsWith_def)
  then show ?thesis
    by (simp add: perform_recorder answer_def get_req_def key_at_def)
qed

text \<open>
  C3, as amended. For every query key that contains both \<open>prod\<close> and
  \<open>cs-get-all-active-chats\<close>, that the first rule does not take (the mocked-prefix test is
  false and the local-mode branch is not taken) and that does not contain \<open>settings\<close>, the
  router sends the streaming request: one GET for \<open>'sse/'\<close> followed by the first token,
  through the staged client, with the header \<open>Accept: text/event-stream\<close>; it sends nothing
  else, and returns the raw body.
\<close>

theorem streaming_request:
  assumes "key_includes queryKey ''prod''"
    and "key_includes queryKey ''cs-get-all-active-chats''"
    and "isMocked cfg queryKey = Inr False"
    and "\<not> isLocal cfg queryKey"
    and "\<not> key_includes queryKey ''settings''"
  shows "defaultQueryFn cfg http queryKey w =
           perform http
             \<lparr>client = ApiDev, verb = GET,
              url = TStr (''sse/'' @ to_string (key_at queryKey 0)),
              headers = [(''Accept'', ''text/event-stream'')], body = None\<rparr> Inr w
         \<and> snd (defaultQueryFn cfg (recorder f) queryKey log) =
             log @ [\<lparr>client = ApiDev, verb = GET,
                     url = TStr (''sse/'' @ to_string (key_at queryKey 0)),
                     headers = [(''Accept'', ''text/event-stream'')], body = None\<rparr>]"
  using assms by (simp add: defaultQueryFn_def get_sse_req_def perform_recorder)

theorem streaming_request_witness:
  "defaultQueryFn \<lparr>REACT_APP_LOCAL = None, mockedEndpoints = [''mock/'']\<rparr>
       (recorder (answer (Prim (TStr ''stream''))))
       [TStr ''cs-get-all-active-chats'', TStr ''prod''] [] =
     (Inr (Prim (TStr ''stream'')),
      [\<lparr>client = ApiDev, verb = GET, url = TStr ''sse/cs-get-all-active-chats'',
        headers = [(''Accept'', ''text/event-stream'')], body = None\<rparr>])"
proof -
  let ?cfg = "\<lparr>REACT_APP_LOCAL = None, mockedEndpoints = [''mock/'']\<rparr>"
  let ?key = "[TStr ''cs-get-all-active-chats'', TStr ''prod'']"
  let ?http = "recorder (answer (Prim (TStr ''stream'')))"
  have "defaultQueryFn ?cfg ?http ?key [] =
          perform ?http
            \<lparr>client = ApiDev, verb = GET, url = TStr (''sse/'' @ to_string (key_at ?key 0)),
             headers = [(''Accept'', ''text/event-stream'')], body = None\<rparr> Inr []"
    by (rule streaming_request [THEN conjunct1])
       (simp_all add: key_includes_def isMocked_def isLocal_def key_at_def startsWith_def)
  then show ?thesis
    by (simp add: perform_recorder answer_def key_at_def)
qed

text \<open>
  The claim as it was stated, for all keys with both tokens, fails in local mode: with
  \<open>REACT_APP_LOCAL = 'true'\<close> the key \<open>["cs-get-all-active-chats", "prod"]\<close> is taken by the
  first rule, and the one request sent is a plain GET to the generic client.
\<close>

theorem streaming_request_local_mode_counterexample:
  "key_includes [TStr ''cs-get-all-active-chats'', TStr ''prod''] ''prod'' \<and>
   key_includes [TStr ''cs-get-all-active-chats'', TStr ''prod''] ''cs-get-all-active-chats'' \<and>
   snd (defaultQueryFn \<lparr>REACT_APP_LOCAL = Some ''true'', mockedEndpoints = []\<rparr>
          (recorder (answer (Prim TNull)))
          [TStr ''cs-get-all-active-chats'', TStr ''prod''] []) =
     [\<lparr>client = ApiGeneric, verb = GET, url = TStr ''cs-get-all-active-chats'',
       headers = [], body = None\<rparr>] \<and>
   snd (defaultQueryFn \<lparr>REACT_APP_LOCAL = Some ''true'', mockedEndpoints = []\<rparr>
          (recorder (answer (Prim TNull)))
          [TStr ''cs-get-all-active-chats'', TStr ''prod''] []) \<noteq>
     [\<lparr>client = ApiDev, verb = GET, url = TStr ''sse/cs-get-all-active-chats'',
       headers = [(''Accept'', ''text/event-stream'')], body = None\<rparr>]"
  by (simp add: defaultQueryFn_def isMocked_def isLocal_def key_includes_def key_at_def
      perform_recorder get_req_def)

text \<open>
  C4, as amended. For every query key that contains both \<open>prod\<close> and \<open>entities\<close> and that
  no earlier rule takes, the router follows the \<open>prod\<close> rule (a GET for the first token
  through the staged client, or the streaming GET when the key also holds
  \<open>cs-get-all-active-chats\<close>) and returns the raw body: the \<open>prod\<close> rule returns at once, and
  the \<open>entities\<close> unwrap of \<open>callApiInstance\<close> is not applied.
\<close>

theorem prod_rule_returns_raw_body:
  assumes "key_includes queryKey ''prod''"
    and "key_includes queryKey ''entities''"
    and "isMocked cfg queryKey = Inr False"
    and "\<not> isLocal cfg queryKey"
    and "\<not> key_includes queryKey ''settings''"
  shows "defaultQueryFn cfg http queryKey w =
           perform http
             (if key_includes queryKey ''cs-get-all-active-chats''
              then get_sse_req ApiDev (TStr (''sse/'' @ to_string (key_at queryKey 0)))
              else get_req ApiDev (key_at queryKey 0)) Inr w"
  using assms by (simp add: defaultQueryFn_def)

theorem prod_rule_returns_raw_body_witness:
  "defaultQueryFn \<lparr>REACT_APP_LOCAL = None, mockedEndpoints = [''mock/'']\<rparr>
       (recorder (answer (Obj [(''response'', Prim (TNum ''7''))])))
       [TStr ''entities'', TStr ''prod''] [] =
     (Inr (Obj [(''response'', Prim (TNum ''7''))]),
      [\<lparr>client = ApiDev, verb = GET, url = TStr ''entities'', headers = [],
        body = None\<rparr>])"
proof -
  let ?cfg = "\<lparr>REACT_APP_LOCAL = None, mockedEndpoints = [''mock/'']\<rparr>"
  let ?key = "[TStr ''entities'', TStr ''prod'']"
  let ?http = "recorder (answer (Obj [(''response'', Prim (TNum ''7''))]))"
  have "defaultQueryFn ?cfg ?http ?key [] =
          perform ?http
            (if key_includes ?key ''cs-get-all-active-chats''
             then get_sse_req ApiDev (TStr (''sse/'' @ to_string (key_at ?key 0)))
             else get_req ApiDev (key_at ?key 0)) Inr []"
    by (rule prod_rule_returns_raw_body)
       (simp_all add: key_includes_def isMocked_def isLocal_def key_at_def startsWith_def)
  then show ?thesis
    by (simp add: perform_recorder answer_def get_req_def key_at_def key_includes_def)
qed

text \<open>
  The claim as it was stated fails at the key \<open>["entities", "prod"]\<close>: against the envelope
  \<open>{response: 7}\<close> the router returns the envelope, while \<open>body.response\<close> is 7.
\<close>

theorem prod_entities_unwrap_counterexample:
  "key_includes [TStr ''entities'', TStr ''prod''] ''prod'' \<and>
   key_includes [TStr ''entities'', TStr ''prod''] ''entities'' \<and>
   fst (defaultQueryFn \<lparr>REACT_APP_LOCAL = None, mockedEndpoints = []\<rparr>
          (recorder (answer (Obj [(''response'', Prim (TNum ''7''))])))
          [TStr ''entities'', TStr ''prod''] []) =
     Inr (Obj [(''response'', Prim (TNum ''7''))]) \<and>
   get_prop (Obj [(''response'', Prim (TNum ''7''))]) ''response'' = Inr (Prim (TNum ''7'')) \<and>
   fst (defaultQueryFn \<lparr>REACT_APP_LOCAL = None, mockedEndpoints = []\<rparr>
          (recorder (answer (Obj [(''response'', Prim (TNum ''7''))])))
          [TStr ''entities'', TStr ''prod''] []) \<noteq>
     get_prop (Obj [(''response'', Prim (TNum ''7''))]) ''response''"
  by (simp add: defaultQueryFn_def isMocked_def isLocal_def key_includes_def key_at_def
      perform_recorder answer_def)

subsection \<open>The secondary stage: \<open>callApiInstance\<close>\<close>

text \<open>
  C5, as amended. For every query key that contains the token \<open>slots/slotById\<close> and reaches
  the secondary stage, the router sends a POST for the first token to the primary client
  (\<open>apiInstance\<close>) with the body \<open>{slot: key[1]}\<close> and returns the raw body of the
  response: this branch ends in \<open>return data\<close>, not in \<open>return data.response\<close>.
\<close>

theorem slot_by_id_posts_slot:
  assumes "key_includes queryKey ''slots/slotById''"
    and "isMocked cfg queryKey = Inr False"
    and "\<not> key_includes queryKey ''settings''"
    and "\<not> key_includes queryKey ''prod''"
    and "first_includes_auth queryKey = Inr False"
    and "\<not> (key_includes queryKey ''regex'' \<and> key_includes queryKey ''examples'')"
  shows "defaultQueryFn cfg http queryKey w =
           perform http
             \<lparr>client = ApiInstance, verb = POST, url = key_at queryKey 0, headers = [],
              body = Some (Obj [(''slot'', Prim (key_at queryKey 1))])\<rparr> Inr w"
  using assms(1) reaches_callApiInstance [OF assms(2-6)]
  by (simp add: callApiInstance_def post_req_def)

theorem slot_by_id_posts_slot_witness:
  "defaultQueryFn \<lparr>REACT_APP_LOCAL = None, mockedEndpoints = [''mock/'']\<rparr>
       (recorder (answer (Obj [(''response'', Prim (TNum ''7''))])))
       [TStr ''slots/slotById'', TStr ''greet_slot''] [] =
     (Inr (Obj [(''response'', Prim (TNum ''7''))]),
      [\<lparr>client = ApiInstance, verb = POST, url = TStr ''slots/slotById'', headers = [],
        body = Some (Obj [(''slot'', Prim (TStr ''greet_slot''))])\<rparr>])"
proof -
  let ?cfg = "\<lparr>REACT_APP_LOCAL = None, mockedEndpoints = [''mock/'']\<rparr>"
  let ?key = "[TStr ''slots/slotById'', TStr ''greet_slot'']"
  let ?http = "recorder (answer (Obj [(''response'', Prim (TNum ''7''))]))"
  have "defaultQueryFn ?cfg ?http ?key [] =
          perform ?http
            \<lparr>client = ApiInstance, verb = POST, url = key_at ?key 0, headers = [],
             body = Some (Obj [(''slot'', Prim (key_at ?key 1))])\<rparr> Inr []"
    by (rule slot_by_id_posts_slot)
       (simp_all add: key_includes_def isMocked_def first_includes_auth_def key_at_def
          startsWith_def)
  then show ?thesis
    by (simp add: perform_recorder answer_def key_at_def)
qed

text \<open>
  The claim as it was stated fails at its own example \<open>["slots/slotById", "greet_slot"]\<close>:
  against the envelope \<open>{response: 7}\<close> the router returns the envelope, while the
  \<open>response\<close> field is 7.
\<close>

theorem slot_by_id_unwrap_counterexample:
  "fst (defaultQueryFn \<lparr>REACT_APP_LOCAL = None, mockedEndpoints = []\<rparr>
          (recorder (answer (Obj [(''response'', Prim (TNum ''7''))])))
          [TStr ''slots/slotById'', TStr ''greet_slot''] []) =
     Inr (Obj [(''response'', Prim (TNum ''7''))]) \<and>
   get_prop (Obj [(''response'', Prim (TNum ''7''))]) ''response'' = Inr (Prim (TNum ''7'')) \<and>
   fst (defaultQueryFn \<lparr>REACT_APP_LOCAL = None, mockedEndpoints = []\<rparr>
          (recorder (answer (Obj [(''response'', Prim (TNum ''7''))])))
          [TStr ''slots/slotById'', TStr ''greet_slot''] []) \<noteq>
     get_prop (Obj [(''response'', Prim (TNum ''7''))]) ''response''"
  by (simp add: defaultQueryFn_def callApiInstance_def isMocked_def isLocal_def
      first_includes_auth_def key_includes_def key_at_def perform_recorder answer_def)

text \<open>
  C6. For every query key that reaches the default GET of the secondary stage (no earlier
  rule takes it and it holds none of the tokens of the POST rules), the router sends a GET
  for the first token to the primary client, and the result is \<open>body.response\<close> if the key
  contains \<open>entities\<close>, else \<open>body.response.regexes\<close> if it contains \<open>regexes\<close>, else the body
  as it is.
\<close>

theorem final_unwrap:
  assumes "isMocked cfg queryKey = Inr False"
    and "\<not> key_includes queryKey ''settings''"
    and "\<not> key_includes queryKey ''prod''"
    and "first_includes_auth queryKey = Inr False"
    and "\<not> (key_includes queryKey ''regex'' \<and> key_includes queryKey ''examples'')"
    and "\<not> key_includes queryKey ''slots/slotById''"
    and "\<not> key_includes queryKey ''forms/formById''"
    and "\<not> key_includes queryKey ''story-by-name''"
    and "\<not> key_includes queryKey ''rule-by-name''"
    and "\<not> key_includes queryKey ''intents-report''"
  shows "defaultQueryFn cfg http queryKey w =
           perform http (get_req ApiInstance (key_at queryKey 0))
             (if key_includes queryKey ''entities'' then
                (\<lambda>body. get_prop body ''response'')
              else if key_includes queryKey ''regexes'' then
                (\<lambda>body. case get_prop body ''response'' of
                          Inl e \<Rightarrow> Inl e
                        | Inr r \<Rightarrow> get_prop r ''regexes'')
              else Inr) w"
proof -
  have "(\<lambda>data.
           if key_includes queryKey ''entities'' then response_of data
           else if key_includes queryKey ''regexes'' then response_regexes_of data
           else Inr data) =
        (if key_includes queryKey ''entities'' then
           (\<lambda>body. get_prop body ''response'')
         else if key_includes queryKey ''regexes'' then
           (\<lambda>body. case get_prop body ''response'' of
                     Inl e \<Rightarrow> Inl e
                   | Inr r \<Rightarrow> get_prop r ''regexes'')
         else Inr)"
    by (auto simp: response_of_def response_regexes_of_def fun_eq_iff)
  then show ?thesis by (simp only: default_get [OF assms])
qed

text \<open>At the key \<open>["entities"]\<close> and the envelope \<open>{response: 7}\<close> the result is 7.\<close>

theorem final_unwrap_witness:
  "defaultQueryFn \<lparr>REACT_APP_LOCAL = None, mockedEndpoints = [''mock/'']\<rparr>
       (recorder (answer (Obj [(''response'', Prim (TNum ''7''))])))
       [TStr ''entities''] [] =
     (Inr (Prim (TNum ''7'')),
      [\<lparr>client = ApiInstance, verb = GET, url = TStr ''entities'', headers = [],
        body = None\<rparr>])"
proof -
  let ?cfg = "\<lparr>REACT_APP_LOCAL = None, mockedEndpoints = [''mock/'']\<rparr>"
  let ?key = "[TStr ''entities'']"
  let ?http = "recorder (answer (Obj [(''response'', Prim (TNum ''7''))]))"
  have "defaultQueryFn ?cfg ?http ?key [] =
          perform ?http (get_req ApiInstance (key_at ?key 0))
            (if key_includes ?key ''entities'' then
               (\<lambda>body. get_prop body ''response'')
             else if key_includes ?key ''regexes'' then
               (\<lambda>body. case get_prop body ''response'' of
                         Inl e \<Rightarrow> Inl e
                       | Inr r \<Rightarrow> get_prop r ''regexes'')
             else Inr) []"
    by (rule final_unwrap)
       (simp_all add: key_includes_def isMocked_def first_includes_auth_def key_at_def
          startsWith_def)
  then show ?thesis
    by (simp add: perform_recorder answer_def get_req_def key_at_def key_includes_def)
qed

text \<open>
  C7, as amended. For every query key whose first token is a string and that matches no
  rule at all (no mocked endpoint is a prefix of the first token, the first token does not
  contain \<open>auth\<close>, and the key holds none of the tokens \<open>settings\<close>, \<open>prod\<close>, \<open>regex\<close> with
  \<open>examples\<close>, the five tokens of the POST rules, \<open>entities\<close>, \<open>regexes\<close>), the router does
  not fail: it sends a plain GET for the first token to the primary client and returns the
  raw body. The only error that can come out is a failure of the transport, never an error
  of the router's own.
\<close>

theorem default_get_raw_body:
  assumes "key_at queryKey 0 = TStr s"
    and "\<forall>endpoint \<in> set (mockedEndpoints cfg). \<not> startsWith s endpoint"
    and "\<not> str_includes s ''auth''"
    and "\<not> key_includes queryKey ''settings''"
    and "\<not> key_includes queryKey ''prod''"
    and "\<not> (key_includes queryKey ''regex'' \<and> key_includes queryKey ''examples'')"
    and "\<not> key_includes queryKey ''slots/slotById''"
    and "\<not> key_includes queryKey ''forms/formById''"
    and "\<not> key_includes queryKey ''story-by-name''"
    and "\<not> key_includes queryKey ''rule-by-name''"
    and "\<not> key_includes queryKey ''intents-report''"
    and "\<not> key_includes queryKey ''entities''"
    and "\<not> key_includes queryKey ''regexes''"
  shows "defaultQueryFn cfg http queryKey w =
           perform http
             \<lparr>client = ApiInstance, verb = GET, url = TStr s, headers = [],
              body = None\<rparr> Inr w
         \<and> fst (defaultQueryFn cfg http queryKey w) \<noteq> Inl TypeError"
proof -
  have m: "isMocked cfg queryKey = Inr False"
    using assms(1,2) by (auto simp: isMocked_def list_ex_iff)
  have a: "first_includes_auth queryKey = Inr False"
    using assms(1,3) by (simp add: first_includes_auth_def)
  have "defaultQueryFn cfg http queryKey w =
          perform http (get_req ApiInstance (key_at queryKey 0)) Inr w"
    using assms(12,13) by (simp add: default_get [OF m assms(4,5) a assms(6-11)])
  then show ?thesis by (simp add: perform_no_TypeError get_req_def assms(1))
qed

theorem default_get_raw_body_witness:
  "defaultQueryFn \<lparr>REACT_APP_LOCAL = Some ''true'', mockedEndpoints = [''mock/'']\<rparr>
       (recorder (answer (Obj [(''response'', Prim (TNum ''7''))])))
       [TStr ''unknown-resource''] [] =
     (Inr (Obj [(''response'', Prim (TNum ''7''))]),
      [\<lparr>client = ApiInstance, verb = GET, url = TStr ''unknown-resource'', headers = [],
        body = None\<rparr>])"
proof -
  let ?cfg = "\<lparr>REACT_APP_LOCAL = Some ''true'', mockedEndpoints = [''mock/'']\<rparr>"
  let ?key = "[TStr ''unknown-resource'']"
  let ?http = "recorder (answer (Obj [(''response'', Prim (TNum ''7''))]))"
  have "defaultQueryFn ?cfg ?http ?key [] =
          perform ?http
            \<lparr>client = ApiInstance, verb = GET, url = TStr ''unknown-resource'', headers = [],
             body = None\<rparr> Inr []"
    by (rule default_get_raw_body [THEN conjunct1])
       (simp_all add: key_includes_def key_at_def startsWith_def)
  then show ?thesis
    by (simp add: perform_recorder answer_def)
qed

text \<open>
  Without the condition on the first token the statement fails. The empty key matches no
  mocked prefix (none is configured here) and holds no token of any rule, yet the router
  sends no request: \<open>queryKey[0]\<close> is \<open>undefined\<close>, and \<open>(queryKey[0] as string).includes('auth')\<close>
  throws a TypeError.
\<close>

theorem default_get_empty_key_counterexample:
  "isMocked \<lparr>REACT_APP_LOCAL = None, mockedEndpoints = []\<rparr> [] = Inr False \<and>
   \<not> key_includes [] ''settings'' \<and>
   \<not> key_includes [] ''prod'' \<and>
   \<not> key_includes [] ''regex'' \<and>
   \<not> key_includes [] ''examples'' \<and>
   \<not> key_includes [] ''slots/slotById'' \<and>
   \<not> key_includes [] ''forms/formById'' \<and>
   \<not> key_includes [] ''story-by-name'' \<and>
   \<not> key_includes [] ''rule-by-name'' \<and>
   \<not> key_includes [] ''intents-report'' \<and>
   \<not> key_includes [] ''entities'' \<and>
   \<not> key_includes [] ''regexes'' \<and>
   defaultQueryFn \<lparr>REACT_APP_LOCAL = None, mockedEndpoints = []\<rparr>
       (recorder (answer (Prim TNull))) [] [] =
     (Inl TypeError, [])"
  by (simp add: defaultQueryFn_def isMocked_def isLocal_def key_includes_def key_at_def
      first_includes_auth_def)

text \<open>
  C9. In the final unwrap of the default GET, the \<open>entities\<close> check comes before the
  \<open>regexes\<close> check: for every query key that contains both and reaches the default GET,
  the result is \<open>body.response\<close>, not \<open>body.response.regexes\<close>.
\<close>

theorem entities_precedes_regexes:
  assumes "key_includes queryKey ''entities''"
    and "key_includes queryKey ''regexes''"
    and "isMocked cfg queryKey = Inr False"
    and "\<not> key_includes queryKey ''settings''"
    and "\<not> key_includes queryKey ''prod''"
    and "first_includes_auth queryKey = Inr False"
    and "\<not> (key_includes queryKey ''regex'' \<and> key_includes queryKey ''examples'')"
    and "\<not> key_includes queryKey ''slots/slotById''"
    and "\<not> key_includes queryKey ''forms/formById''"
    and "\<not> key_includes queryKey ''story-by-name''"
    and "\<not> key_includes queryKey ''rule-by-name''"
    and "\<not> key_includes queryKey ''intents-report''"
  shows "defaultQueryFn cfg http queryKey w =
           perform http (get_req ApiInstance (key_at queryKey 0))
             (\<lambda>body. get_prop body ''response'') w"
  using assms(1) by (simp add: default_get [OF assms(3-12)] response_of_def)

text \<open>
  At the key \<open>["regexes", "entities"]\<close> and the envelope \<open>{response: {regexes: 7}}\<close> the
  result is \<open>{regexes: 7}\<close>, not 7.
\<close>

theorem entities_precedes_regexes_witness:
  "defaultQueryFn \<lparr>REACT_APP_LOCAL = None, mockedEndpoints = [''mock/'']\<rparr>
       (recorder (answer (Obj [(''response'', Obj [(''regexes'', Prim (TNum ''7''))])])))
       [TStr ''regexes'', TStr ''entities''] [] =
     (Inr (Obj [(''regexes'', Prim (TNum ''7''))]),
      [\<lparr>client = ApiInstance, verb = GET, url = TStr ''regexes'', headers = [],
        body = None\<rparr>])"
proof -
  let ?cfg = "\<lparr>REACT_APP_LOCAL = None, mockedEndpoints = [''mock/'']\<rparr>"
  let ?key = "[TStr ''regexes'', TStr ''entities'']"
  let ?http = "recorder (answer (Obj [(''response'', Obj [(''regexes'', Prim (TNum ''7''))])]))"
  have "defaultQueryFn ?cfg ?http ?key [] =
          perform ?http (get_req ApiInstance (key_at ?key 0))
            (\<lambda>body. get_prop body ''response'') []"
    by (rule entities_precedes_regexes)
       (simp_all add: key_includes_def isMocked_def first_includes_auth_def key_at_def
          startsWith_def)
  then show ?thesis
    by (simp add: perform_recorder answer_def get_req_def key_at_def)
qed

text \<open>
  C10. The router never checks that the positional argument exists. For a key of a single
  token, \<open>key[1]\<close> is \<open>undefined\<close> and reading it raises nothing; when that token is one of
  the five tokens of the POST rules (and the mocked-prefix test is false), the POST is sent
  all the same, with \<open>undefined\<close> as the value in its body. A key of a single token cannot
  hold both \<open>regex\<close> and \<open>examples\<close>, so that rule never sees an absent argument.
\<close>

theorem absent_argument_posted_as_undefined:
  assumes "isMocked cfg [TStr t] = Inr False"
  shows "key_at [TStr t] 1 = TUndefined \<and>
         \<not> (key_includes [TStr t] ''regex'' \<and> key_includes [TStr t] ''examples'') \<and>
         (t = ''slots/slotById'' \<longrightarrow>
            defaultQueryFn cfg http [TStr t] w =
              perform http (post_req ApiInstance (TStr t) (Obj [(''slot'', Prim TUndefined)]))
                Inr w) \<and>
         (t = ''forms/formById'' \<longrightarrow>
            defaultQueryFn cfg http [TStr t] w =
              perform http (post_req ApiInstance (TStr t) (Obj [(''form'', Prim TUndefined)]))
                Inr w) \<and>
         (t = ''story-by-name'' \<longrightarrow>
            defaultQueryFn cfg http [TStr t] w =
              perform http (post_req ApiInstance (TStr t) (Obj [(''story'', Prim TUndefined)]))
                (\<lambda>body. get_prop body ''response'') w) \<and>
         (t = ''rule-by-name'' \<longrightarrow>
            defaultQueryFn cfg http [TStr t] w =
              perform http (post_req ApiInstance (TStr t) (Obj [(''rule'', Prim TUndefined)]))
                (\<lambda>body. get_prop body ''response'') w) \<and>
         (t = ''intents-report'' \<longrightarrow>
            defaultQueryFn cfg http [TStr t] w =
              perform http (post_req ApiInstance (TStr t) (Obj [(''id'', Prim TUndefined)]))
                (\<lambda>body. get_prop body ''response'') w)"
proof -
  have a: "key_at [TStr t] 1 = TUndefined" by (simp add: key_at_def)
  have b: "\<not> (key_includes [TStr t] ''regex'' \<and> key_includes [TStr t] ''examples'')"
    by (auto simp: key_includes_def)
  have c: "defaultQueryFn cfg http [TStr t] w = callApiInstance http [TStr t] w"
    if "t \<in> {''slots/slotById'', ''forms/formById'', ''story-by-name'', ''rule-by-name'',
              ''intents-report''}"
    using that by (intro single_token_reaches_callApiInstance [OF assms]) auto
  have r: "response_of = (\<lambda>body. get_prop body ''response'')"
    by (simp add: fun_eq_iff response_of_def)
  have d1: "defaultQueryFn cfg http [TStr t] w =
      perform http (post_req ApiInstance (TStr t) (Obj [(''slot'', Prim TUndefined)])) Inr w"
    if "t = ''slots/slotById''"
    using that c by (simp add: callApiInstance_def key_includes_def key_at_def)
  have d2: "defaultQueryFn cfg http [TStr t] w =
      perform http (post_req ApiInstance (TStr t) (Obj [(''form'', Prim TUndefined)])) Inr w"
    if "t = ''forms/formById''"
    using that c by (simp add: callApiInstance_def key_includes_def key_at_def)
  have d3: "defaultQueryFn cfg http [TStr t] w =
      perform http (post_req ApiInstance (TStr t) (Obj [(''story'', Prim TUndefined)]))
        (\<lambda>body. get_prop body ''response'') w"
    if "t = ''story-by-name''"
    using that c by (simp add: callApiInstance_def key_includes_def key_at_def r)
  have d4: "defaultQueryFn cfg http [TStr t] w =
      perform http (post_req ApiInstance (TStr t) (Obj [(''rule'', Prim TUndefined)]))
        (\<lambda>body. get_prop body ''response'') w"
    if "t = ''rule-by-name''"
    using that c by (simp add: callApiInstance_def key_includes_def key_at_def r)
  have d5: "defaultQueryFn cfg http [TStr t] w =
      perform http (post_req ApiInstance (TStr t) (Obj [(''id'', Prim TUndefined)]))
        (\<lambda>body. get_prop body ''response'') w"
    if "t = ''intents-report''"
    using that c by (simp add: callApiInstance_def key_includes_def key_at_def r)
  from a b d1 d2 d3 d4 d5 show ?thesis by (intro conjI impI)
qed

text \<open>At the key \<open>["slots/slotById"]\<close>: a POST with the body \<open>{slot: undefined}\<close>.\<close>

theorem absent_argument_posted_as_undefined_witness:
  "isMocked \<lparr>REACT_APP_LOCAL = None, mockedEndpoints = [''mock/'']\<rparr> [TStr ''slots/slotById''] =
     Inr False \<and>
   defaultQueryFn \<lparr>REACT_APP_LOCAL = None, mockedEndpoints = [''mock/'']\<rparr>
       (recorder (answer (Prim (TStr ''ok''))))
       [TStr ''slots/slotById''] [] =
     (Inr (Prim (TStr ''ok'')),
      [\<lparr>client = ApiInstance, verb = POST, url = TStr ''slots/slotById'', headers = [],
        body = Some (Obj [(''slot'', Prim TUndefined)])\<rparr>])"
proof -
  let ?cfg = "\<lparr>REACT_APP_LOCAL = None, mockedEndpoints = [''mock/'']\<rparr>"
  let ?http = "recorder (answer (Prim (TStr ''ok'')))"
  have h: "isMocked ?cfg [TStr ''slots/slotById''] = Inr False"
    by (simp add: isMocked_def key_at_def startsWith_def)
  from absent_argument_posted_as_undefined [OF h, of ?http "[]"]
  have "defaultQueryFn ?cfg ?http [TStr ''slots/slotById''] [] =
          perform ?http
            (post_req ApiInstance (TStr ''slots/slotById'') (Obj [(''slot'', Prim TUndefined)]))
            Inr []"
    by simp
  with h show ?thesis
    by (simp add: perform_recorder answer_def post_req_def)
qed

subsection \<open>Determinism\<close>

text \<open>
  C8. The router is deterministic: for a fixed configuration (local-mode flag and list of
  mocked prefixes) and a fixed query key there is one routing decision, an error thrown
  before any request or one request (client, method, path, headers, body) with one unwrap,
  and every run, against any backend in any state, is the execution of that decision.
  In particular the requests sent do not depend on what the backends answer.
\<close>

theorem resolve_deterministic:
  "(\<exists>plan. \<forall>http w. defaultQueryFn cfg http queryKey w = run_plan plan http w) \<and>
   snd (defaultQueryFn cfg (recorder f) queryKey log) =
     snd (defaultQueryFn cfg (recorder g) queryKey log)"
proof -
  obtain plan where p: "\<And>(http :: request list transport) w.
      defaultQueryFn cfg http queryKey w = run_plan plan http w"
    using defaultQueryFn_plan by blast
  have "snd (defaultQueryFn cfg (recorder f) queryKey log) =
        snd (defaultQueryFn cfg (recorder g) queryKey log)"
    by (simp only: p snd_run_plan_recorder)
  with defaultQueryFn_plan show ?thesis by blast
qed

end
